theory Spec2Isabelle
  imports Main "HOL-Library.Char_ord" "HOL-Library.List_Lexorder" "HOL-Library.Sublist"
begin

section \<open>Version resolution of \<^verbatim>\<open>octoprint/_version.py\<close>\<close>

text \<open>
  The module computes a PEP 440 version from one of three sources: a static data file,
  expanded git keywords, or a git checkout with the branch rules of
  \<^verbatim>\<open>BRANCH_VERSIONS\<close>. This theory embeds its functions as HOL functions.

  Conventions of the embedding.
  \<^item> A Python \<^verbatim>\<open>str\<close> is a \<^typ>\<open>string\<close>; a \<^typ>\<open>char\<close> stands for a code point below
    256. Whitespace, line breaks, digits and letter case are those of Python on that range.
  \<^item> \<^verbatim>\<open>None\<close> is \<^term>\<open>None\<close>; a raised exception is \<^term>\<open>Inl\<close> of an \<open>error\<close>.
  \<^item> The external git client is a function from the argument list of \<^verbatim>\<open>_git\<close> to its
    stripped standard output, \<^term>\<open>None\<close> where \<^verbatim>\<open>_git\<close> returns \<^verbatim>\<open>None\<close>.
\<close>

subsection \<open>Characters and the string methods the module calls\<close>

definition LF :: char where
  "LF = CHR 0x0A"

definition CR :: char where
  "CR = CHR 0x0D"

text \<open>\<^verbatim>\<open>str.isspace\<close> on one character below 256.\<close>

definition is_space :: "char \<Rightarrow> bool" where
  "is_space c = (c \<in> set [CHR 0x09, CHR 0x0A, CHR 0x0B, CHR 0x0C, CHR 0x0D,
     CHR 0x1C, CHR 0x1D, CHR 0x1E, CHR 0x1F, CHR 0x20, CHR 0x85, CHR 0xA0])"

text \<open>The line boundaries of \<^verbatim>\<open>str.splitlines\<close> below 256.\<close>

definition is_linebreak :: "char \<Rightarrow> bool" where
  "is_linebreak c = (c \<in> set [CHR 0x0A, CHR 0x0B, CHR 0x0C, CHR 0x0D,
     CHR 0x1C, CHR 0x1D, CHR 0x1E, CHR 0x85])"

definition is_digit :: "char \<Rightarrow> bool" where
  "is_digit c = (c \<in> set ''0123456789'')"

text \<open>
  Case mapping on the ASCII letters. The patterns compiled with \<^verbatim>\<open>re.IGNORECASE\<close> in
  this module hold ASCII characters only, and below 256 no other character has an ASCII
  letter as its lower or upper case.
\<close>

definition lower :: "char \<Rightarrow> char" where
  "lower c = (case map_of (zip ''ABCDEFGHIJKLMNOPQRSTUVWXYZ'' ''abcdefghijklmnopqrstuvwxyz'') c of
     None \<Rightarrow> c | Some l \<Rightarrow> l)"

definition upper :: "char \<Rightarrow> char" where
  "upper c = (case map_of (zip ''abcdefghijklmnopqrstuvwxyz'' ''ABCDEFGHIJKLMNOPQRSTUVWXYZ'') c of
     None \<Rightarrow> c | Some u \<Rightarrow> u)"

definition startswith :: "string \<Rightarrow> string \<Rightarrow> bool" where
  "startswith s p = (take (length p) s = p)"

definition endswith :: "string \<Rightarrow> string \<Rightarrow> bool" where
  "endswith s p = (length p \<le> length s \<and> drop (length s - length p) s = p)"

text \<open>\<^verbatim>\<open>sub in s\<close> for strings.\<close>

fun is_substring :: "string \<Rightarrow> string \<Rightarrow> bool" where
  "is_substring sub [] = (sub = [])"
| "is_substring sub (c # cs) = (startswith (c # cs) sub \<or> is_substring sub cs)"

text \<open>\<^verbatim>\<open>s.strip()\<close>, and \<^verbatim>\<open>s.strip(chars)\<close>.\<close>

definition strip :: "string \<Rightarrow> string" where
  "strip s = rev (dropWhile is_space (rev (dropWhile is_space s)))"

definition strip_chars :: "string \<Rightarrow> string \<Rightarrow> string" where
  "strip_chars chars s =
     rev (dropWhile (\<lambda>c. c \<in> set chars) (rev (dropWhile (\<lambda>c. c \<in> set chars) s)))"

text \<open>
  \<^verbatim>\<open>s.splitlines()\<close>: \<open>cr\<close> remembers that the last boundary was a carriage return, so
  that a line feed right after it belongs to the same boundary; \<open>cur\<close> is the current
  line, reversed. A last line that is empty is not returned.
\<close>

fun splitlines_from :: "bool \<Rightarrow> string \<Rightarrow> string \<Rightarrow> string list" where
  "splitlines_from cr cur [] = (if cur = [] then [] else [rev cur])"
| "splitlines_from cr cur (c # cs) =
     (if cr \<and> c = LF then splitlines_from False cur cs
      else if is_linebreak c then rev cur # splitlines_from (c = CR) [] cs
      else splitlines_from False (c # cur) cs)"

definition splitlines :: "string \<Rightarrow> string list" where
  "splitlines s = splitlines_from False [] s"

text \<open>\<^verbatim>\<open>s.split()\<close>: the maximal runs of characters that are not whitespace.\<close>

fun split_from :: "string \<Rightarrow> string \<Rightarrow> string list" where
  "split_from cur [] = (if cur = [] then [] else [rev cur])"
| "split_from cur (c # cs) =
     (if is_space c then (if cur = [] then split_from [] cs else rev cur # split_from [] cs)
      else split_from (c # cur) cs)"

definition split :: "string \<Rightarrow> string list" where
  "split s = split_from [] s"

text \<open>\<^verbatim>\<open>s.split(sep)\<close> for a separator of one character: empty pieces are kept.\<close>

fun split_on_from :: "char \<Rightarrow> string \<Rightarrow> string \<Rightarrow> string list" where
  "split_on_from sep cur [] = [rev cur]"
| "split_on_from sep cur (c # cs) =
     (if c = sep then rev cur # split_on_from sep [] cs else split_on_from sep (c # cur) cs)"

definition split_on :: "char \<Rightarrow> string \<Rightarrow> string list" where
  "split_on sep s = split_on_from sep [] s"

subsection \<open>Regular expressions\<close>

text \<open>
  The patterns of the module, as syntax trees. A character class lists its items; the
  empty class matches nothing. \<open>Space\<close> is \<^verbatim>\<open>\s\<close>, \<open>AnyCh\<close> is \<^verbatim>\<open>.\<close> (any character but a
  line feed). The flag \<open>ic\<close> of the matching functions is \<^verbatim>\<open>re.IGNORECASE\<close>.
\<close>

datatype item = Chr char | Rng char char | Space | AnyCh

datatype rx = Empty | Cls "item list" | Alt rx rx | Seq rx rx | Star rx

fun item_ok :: "bool \<Rightarrow> item \<Rightarrow> char \<Rightarrow> bool" where
  "item_ok ic (Chr a) c = (if ic then lower c = lower a else c = a)"
| "item_ok ic (Rng a b) c =
     ((a \<le> c \<and> c \<le> b) \<or>
      (ic \<and> ((a \<le> lower c \<and> lower c \<le> b) \<or> (a \<le> upper c \<and> upper c \<le> b))))"
| "item_ok ic Space c = is_space c"
| "item_ok ic AnyCh c = (c \<noteq> LF)"

definition cls_ok :: "bool \<Rightarrow> item list \<Rightarrow> char \<Rightarrow> bool" where
  "cls_ok ic its c = list_ex (\<lambda>it. item_ok ic it c) its"

fun nullable :: "rx \<Rightarrow> bool" where
  "nullable Empty = True"
| "nullable (Cls its) = False"
| "nullable (Alt r s) = (nullable r \<or> nullable s)"
| "nullable (Seq r s) = (nullable r \<and> nullable s)"
| "nullable (Star r) = True"

text \<open>Alternative and sequence that drop a branch which matches nothing.\<close>

fun alt :: "rx \<Rightarrow> rx \<Rightarrow> rx" where
  "alt (Cls []) s = s"
| "alt r (Cls []) = r"
| "alt r s = Alt r s"

fun seq :: "rx \<Rightarrow> rx \<Rightarrow> rx" where
  "seq (Cls []) s = Cls []"
| "seq Empty s = s"
| "seq r s = Seq r s"

text \<open>The derivative: what is left of the pattern once \<open>c\<close> has been read.\<close>

fun deriv :: "bool \<Rightarrow> char \<Rightarrow> rx \<Rightarrow> rx" where
  "deriv ic c Empty = Cls []"
| "deriv ic c (Cls its) = (if cls_ok ic its c then Empty else Cls [])"
| "deriv ic c (Alt r s) = alt (deriv ic c r) (deriv ic c s)"
| "deriv ic c (Seq r s) =
     (if nullable r then alt (seq (deriv ic c r) s) (deriv ic c s) else seq (deriv ic c r) s)"
| "deriv ic c (Star r) = seq (deriv ic c r) (Star r)"

text \<open>The whole string matches the pattern.\<close>

fun fullmatch :: "bool \<Rightarrow> rx \<Rightarrow> string \<Rightarrow> bool" where
  "fullmatch ic r [] = nullable r"
| "fullmatch ic r (c # cs) = fullmatch ic (deriv ic c r) cs"

text \<open>\<^verbatim>\<open>pattern.match(s) is not None\<close>: some prefix of the string matches the pattern.\<close>

fun re_match :: "bool \<Rightarrow> rx \<Rightarrow> string \<Rightarrow> bool" where
  "re_match ic r [] = nullable r"
| "re_match ic r (c # cs) = (nullable r \<or> re_match ic (deriv ic c r) cs)"

text \<open>
  The strings a pattern stands for, as a set: the meaning that the two matching functions
  above decide (\<open>fullmatch_lang\<close>, \<open>re_match_lang\<close>).
\<close>

primrec lang :: "bool \<Rightarrow> rx \<Rightarrow> string set" where
  "lang ic Empty = {[]}"
| "lang ic (Cls its) = {[c] | c. cls_ok ic its c}"
| "lang ic (Alt r s) = lang ic r \<union> lang ic s"
| "lang ic (Seq r s) = {u @ v | u v. u \<in> lang ic r \<and> v \<in> lang ic s}"
| "lang ic (Star r) = {concat ws | ws. set ws \<subseteq> lang ic r}"

text \<open>Pattern combinators: a literal string, \<^verbatim>\<open>r?\<close>, \<^verbatim>\<open>r+\<close>, and a choice of several.\<close>

fun lit :: "string \<Rightarrow> rx" where
  "lit [] = Empty"
| "lit [c] = Cls [Chr c]"
| "lit (c # cs) = Seq (Cls [Chr c]) (lit cs)"

definition opt :: "rx \<Rightarrow> rx" where
  "opt r = Alt r Empty"

definition plus_rx :: "rx \<Rightarrow> rx" where
  "plus_rx r = Seq r (Star r)"

fun alts :: "rx list \<Rightarrow> rx" where
  "alts [] = Cls []"
| "alts [r] = r"
| "alts (r # rs) = Alt r (alts rs)"

subsection \<open>\<^verbatim>\<open>PEP440_REGEX\<close> and \<^verbatim>\<open>_validate_version\<close>\<close>

text \<open>
  The pattern is written with \<^verbatim>\<open>re.VERBOSE\<close>, so its blanks and comments are not part of
  it. Named groups only name; they are transcribed as plain groups.
\<close>

definition digits1 :: rx where
  "digits1 = plus_rx (Cls [Rng CHR ''0'' CHR ''9''])"

definition sep :: rx where
  "sep = opt (Cls [Chr CHR ''-'', Chr CHR ''_'', Chr CHR ''.''])"

definition pep_epoch :: rx where
  "pep_epoch = opt (Seq digits1 (lit ''!''))"

definition pep_release :: rx where
  "pep_release = Seq digits1 (Star (Seq (lit ''.'') digits1))"

definition pep_pre :: rx where
  "pep_pre = opt (Seq sep (Seq
     (alts [lit ''a'', lit ''b'', lit ''c'', lit ''rc'', lit ''alpha'', lit ''beta'', lit ''pre'',
            lit ''preview''])
     (Seq sep (opt digits1))))"

definition pep_post :: rx where
  "pep_post = opt (Alt
     (Seq (lit ''-'') digits1)
     (Seq sep (Seq (alts [lit ''post'', lit ''rev'', lit ''r'']) (Seq sep (opt digits1)))))"

definition pep_dev :: rx where
  "pep_dev = opt (Seq sep (Seq (lit ''dev'') (Seq sep (opt digits1))))"

definition pep_local :: rx where
  "pep_local = opt (Seq (lit ''+'')
     (Seq (plus_rx (Cls [Rng CHR ''a'' CHR ''z'', Rng CHR ''0'' CHR ''9'']))
          (Star (Seq (Cls [Chr CHR ''-'', Chr CHR ''_'', Chr CHR ''.''])
                     (plus_rx (Cls [Rng CHR ''a'' CHR ''z'', Rng CHR ''0'' CHR ''9'']))))))"

text \<open>Everything after the optional \<^verbatim>\<open>v\<close>.\<close>

definition pep_body :: rx where
  "pep_body = Seq (Seq pep_epoch (Seq pep_release (Seq pep_pre (Seq pep_post pep_dev))))
     (Seq pep_local (Star (Cls [Space])))"

definition PEP440_REGEX :: rx where
  "PEP440_REGEX = Seq (Star (Cls [Space])) (Seq (opt (lit ''v'')) pep_body)"

text \<open>
  \<^verbatim>\<open>PEP440_REGEX.search(version) is not None\<close>. The pattern starts with \<^verbatim>\<open>^\<close> and ends with
  \<^verbatim>\<open>\s*$\<close>, without \<^verbatim>\<open>re.MULTILINE\<close>: a search can match at position 0 only and must
  reach the end of the string (the line feed that \<^verbatim>\<open>$\<close> tolerates at the very end is
  whitespace, which \<^verbatim>\<open>\s*\<close> takes), so the search finds a match exactly when the whole
  string matches the pattern between the anchors.
\<close>

definition validate_version :: "string \<Rightarrow> bool" where
  "validate_version version = fullmatch True PEP440_REGEX version"

subsection \<open>\<^verbatim>\<open>re.compile\<close> for the branch patterns\<close>

text \<open>
  The branch rules are compiled without flags. \<open>re_compile\<close> is \<^verbatim>\<open>re.compile\<close> on the
  patterns built from ordinary characters, \<^verbatim>\<open>.\<close> and \<^verbatim>\<open>*\<close>, which covers every pattern of
  \<^verbatim>\<open>BRANCH_VERSIONS\<close>: a \<^verbatim>\<open>*\<close> with nothing before it to repeat, or right after another
  \<^verbatim>\<open>*\<close>, is the error \<^verbatim>\<open>re.error\<close> (\<^term>\<open>None\<close>). A pattern with another metacharacter
  is outside this fragment and also gives \<^term>\<open>None\<close> here; the parsing and composition
  functions below take the compiler and the matcher as parameters, so that what is proved
  of them for every compiler does not depend on the fragment.
\<close>

definition is_meta :: "char \<Rightarrow> bool" where
  "is_meta c = (c \<in> set (CHR 0x5C # ''^$+?{}[]()|''))"

fun re_pieces :: "string \<Rightarrow> rx list option" where
  "re_pieces [] = Some []"
| "re_pieces [c] =
     (if c = CHR ''*'' \<or> is_meta c then None
      else Some [Cls [if c = CHR ''.'' then AnyCh else Chr c]])"
| "re_pieces (c # d # cs) =
     (if c = CHR ''*'' \<or> is_meta c then None
      else if d = CHR ''*''
        then map_option (Cons (Star (Cls [if c = CHR ''.'' then AnyCh else Chr c]))) (re_pieces cs)
        else map_option (Cons (Cls [if c = CHR ''.'' then AnyCh else Chr c])) (re_pieces (d # cs)))"

definition re_compile :: "string \<Rightarrow> rx option" where
  "re_compile pattern = map_option (\<lambda>ps. foldr seq ps Empty) (re_pieces pattern)"

text \<open>\<^verbatim>\<open>matcher.match(branch)\<close> as a truth value.\<close>

definition matcher_match :: "rx \<Rightarrow> string \<Rightarrow> bool" where
  "matcher_match matcher branch = re_match False matcher branch"

subsection \<open>\<^verbatim>\<open>BRANCH_VERSIONS\<close> and \<^verbatim>\<open>_parse_branch_versions\<close>\<close>

definition BRANCH_VERSIONS :: string where
  "BRANCH_VERSIONS = concat [
     ''\<newline>'',
     ''# Configuration for the branch versions, manually mapping tags based on branches\<newline>'',
     ''#\<newline>'',
     ''# Format is\<newline>'',
     ''#\<newline>'',
     ''#   <branch-regex> <tag> <reference commit>\<newline>'',
     ''#\<newline>'',
     ''# The data is processed from top to bottom, the first matching line wins.\<newline>'',
     ''\<newline>'',
     ''# maintenance is currently the branch for preparation of maintenance release 1.10.0\<newline>'',
     ''# so are any fix/... and improve/... branches\<newline>'',
     ''maintenance 1.10.0 cd955e9a46782119b36cc22b8dea5652ebbf9774\<newline>'',
     ''fix/.* 1.10.0 cd955e9a46782119b36cc22b8dea5652ebbf9774\<newline>'',
     ''improve/.* 1.10.0 cd955e9a46782119b36cc22b8dea5652ebbf9774\<newline>'',
     ''\<newline>'',
     ''# staging/bugfix is the branch for preparation of the 1.9.x bugfix releases\<newline>'',
     ''# so are any bug/... branches\<newline>'',
     ''staging/bugfix 1.9.4 506648c152681bf4b1416cf2b5aaf97d526ee752 pep440-dev\<newline>'',
     ''bug/.* 1.9.4 506648c152681bf4b1416cf2b5aaf97d526ee752 pep440-dev\<newline>'',
     ''\<newline>'',
     ''# staging/maintenance is currently the branch for preparation of 1.10.0rc2\<newline>'',
     ''# so is regressionfix/...\<newline>'',
     ''staging/maintenance 1.10.0rc2 f1e7f3253cccfbc2cd2e445646fbc2d3b31250d1\<newline>'',
     ''regressionfix/.* 1.10.0rc2 f1e7f3253cccfbc2cd2e445646fbc2d3b31250d1\<newline>'',
     ''\<newline>'',
     ''# staging/devel is currently inactive (but has the 1.4.1rc4 namespace)\<newline>'',
     ''staging/devel 1.4.1rc4 650d54d1885409fa1d411eb54b9e8c7ff428910f\<newline>'',
     ''\<newline>'',
     ''# devel and dev/* are development branches and thus get resolved to 2.0.0.dev for now\<newline>'',
     ''devel 2.0.0 2da7aa358d950b4567aaab8f18d6b5779193e077\<newline>'',
     ''dev/* 2.0.0 2da7aa358d950b4567aaab8f18d6b5779193e077\<newline>'',
     ''feature/* 2.0.0 2da7aa358d950b4567aaab8f18d6b5779193e077\<newline>'']"

text \<open>A rule: the compiled matcher, the virtual tag, the reference commit.\<close>

type_synonym 'm rule = "'m \<times> string \<times> string"

text \<open>
  One line of the loop, up to the tokens: the comment is cut at the first \<^verbatim>\<open>#\<close>, the
  rest is stripped and split at whitespace.
\<close>

definition line_tokens :: "string \<Rightarrow> string list" where
  "line_tokens line0 =
     (let line1 = (if CHR ''#'' \<in> set line0 then takeWhile (\<lambda>c. c \<noteq> CHR ''#'') line0 else line0);
          line = strip line1
      in if line = [] then [] else map strip (split line))"

text \<open>
  The loop over the lines, with the list built so far. A line that is empty after
  stripping, or has no token, or has a number of tokens other than 3, is passed over
  (\<^verbatim>\<open>continue\<close>). An exception in the \<^verbatim>\<open>try\<close> block, which only \<^verbatim>\<open>re.compile\<close> raises,
  leaves the loop (\<^verbatim>\<open>break\<close>), and the function returns the list as it stands.
\<close>

fun parse_lines :: "(string \<Rightarrow> 'm option) \<Rightarrow> 'm rule list \<Rightarrow> string list \<Rightarrow> 'm rule list" where
  "parse_lines rc branch_versions [] = branch_versions"
| "parse_lines rc branch_versions (line # rest) =
     (let split_line = line_tokens line
      in if length split_line = 0 then parse_lines rc branch_versions rest
         else if length split_line \<noteq> 3 then parse_lines rc branch_versions rest
         else (case rc (split_line ! 0) of
                 None \<Rightarrow> branch_versions
               | Some matcher \<Rightarrow>
                   parse_lines rc (branch_versions @ [(matcher, split_line ! 1, split_line ! 2)]) rest))"

definition parse_branch_versions :: "(string \<Rightarrow> 'm option) \<Rightarrow> string \<Rightarrow> 'm rule list" where
  "parse_branch_versions rc config =
     (if config = [] then [] else parse_lines rc [] (splitlines config))"

subsection \<open>The git queries\<close>

text \<open>
  \<^verbatim>\<open>_git(*args)\<close> runs the git client and returns its stripped output, or \<^verbatim>\<open>None\<close> when
  the client is missing or exits with an error. The client is outside the module: it is
  the parameter \<open>g\<close>.
\<close>

type_synonym git = "string list \<Rightarrow> string option"

definition get_long :: "git \<Rightarrow> string option" where
  "get_long g = g [''rev-parse'', ''HEAD'']"

definition get_short :: "git \<Rightarrow> string option" where
  "get_short g = g [''rev-parse'', ''--short'', ''HEAD'']"

definition get_tag :: "git \<Rightarrow> string option" where
  "get_tag g = g [''describe'', ''--tags'', ''--abbrev=0'', ''--always'']"

definition get_branch :: "git \<Rightarrow> string option" where
  "get_branch g = g [''rev-parse'', ''--abbrev-ref'', ''HEAD'']"

definition get_dirty :: "git \<Rightarrow> bool" where
  "get_dirty g =
     (case g [''describe'', ''--tags'', ''--dirty'', ''--always''] of
        None \<Rightarrow> True
      | Some describe \<Rightarrow> endswith describe ''-dirty'')"

text \<open>
  \<^verbatim>\<open>int(s)\<close> for a string: optional whitespace around, an optional sign, then decimal
  digits, where single underscores may stand between digits. \<open>digits_ok\<close> checks the
  digits (its flag: the character before was a digit); \<^term>\<open>None\<close> is \<^verbatim>\<open>ValueError\<close>.
\<close>

fun digits_ok :: "bool \<Rightarrow> string \<Rightarrow> bool" where
  "digits_ok prev [] = prev"
| "digits_ok prev (c # cs) =
     (if is_digit c then digits_ok True cs else (c = CHR ''_'' \<and> prev \<and> digits_ok False cs))"

definition digit_val :: "char \<Rightarrow> nat" where
  "digit_val c = (case map_of (zip ''0123456789'' [0, 1, 2, 3, 4, 5, 6, 7, 8, 9]) c of
     None \<Rightarrow> 0 | Some d \<Rightarrow> d)"

definition digits_val :: "string \<Rightarrow> nat" where
  "digits_val s = foldl (\<lambda>a c. 10 * a + digit_val c) 0 (filter is_digit s)"

definition py_int :: "string \<Rightarrow> int option" where
  "py_int s =
     (case strip s of
        [] \<Rightarrow> None
      | c # cs \<Rightarrow>
          (if c = CHR ''-'' then (if digits_ok False cs then Some (- int (digits_val cs)) else None)
           else if c = CHR ''+'' then (if digits_ok False cs then Some (int (digits_val cs)) else None)
           else (if digits_ok False (c # cs) then Some (int (digits_val (c # cs))) else None)))"

text \<open>\<^verbatim>\<open>str(n)\<close> for an integer.\<close>

function show_nat :: "nat \<Rightarrow> string" where
  "show_nat n =
     (if n < 10 then [''0123456789'' ! n] else show_nat (n div 10) @ [''0123456789'' ! (n mod 10)])"
  by pat_completeness auto
termination
  by (relation "measure id") auto

declare show_nat.simps [simp del]

definition show_int :: "int \<Rightarrow> string" where
  "show_int i = (if i < 0 then CHR ''-'' # show_nat (nat (- i)) else show_nat (nat i))"

text \<open>
  \<^verbatim>\<open>_get_distance(ref)\<close>. The argument of \<^verbatim>\<open>rev-list\<close> is the f-string
  \<^verbatim>\<open>f"{ref}..HEAD"\<close>, and \<^verbatim>\<open>ref\<close> is \<^verbatim>\<open>None\<close> when the caller found no tag: it is then
  formatted as the word \<^verbatim>\<open>None\<close>.
\<close>

definition get_distance :: "git \<Rightarrow> string option \<Rightarrow> int option" where
  "get_distance g ref =
     (case g [''rev-list'', (case ref of None \<Rightarrow> ''None'' | Some r \<Rightarrow> r) @ ''..HEAD'', ''--count''] of
        None \<Rightarrow> None
      | Some distance \<Rightarrow> py_int distance)"

subsection \<open>\<^verbatim>\<open>str.format\<close>\<close>

datatype error = FileNotFoundError | KeyError string | ValueError

datatype pyval = PNone | PStr string | PInt int

definition of_str :: "string option \<Rightarrow> pyval" where
  "of_str v = (case v of None \<Rightarrow> PNone | Some s \<Rightarrow> PStr s)"

definition of_int_opt :: "int option \<Rightarrow> pyval" where
  "of_int_opt v = (case v of None \<Rightarrow> PNone | Some i \<Rightarrow> PInt i)"

definition py_str :: "pyval \<Rightarrow> string" where
  "py_str v = (case v of PNone \<Rightarrow> ''None'' | PStr s \<Rightarrow> s | PInt i \<Rightarrow> show_int i)"

text \<open>
  \<^verbatim>\<open>template.format(**vars)\<close> for templates whose replacement fields are plain names,
  \<^verbatim>\<open>{name}\<close>, as all templates of the module are (doubled braces, conversions and format
  specifications are not modelled). The second argument is the field name read so far,
  reversed, inside a field. A name that is not a key raises \<^verbatim>\<open>KeyError\<close>, a brace without
  its partner \<^verbatim>\<open>ValueError\<close>.
\<close>

fun format_from :: "(string \<times> pyval) list \<Rightarrow> string option \<Rightarrow> string \<Rightarrow> error + string" where
  "format_from vars None [] = Inr []"
| "format_from vars (Some name) [] = Inl ValueError"
| "format_from vars None (c # cs) =
     (if c = CHR ''{'' then format_from vars (Some []) cs
      else if c = CHR ''}'' then Inl ValueError
      else (case format_from vars None cs of Inl e \<Rightarrow> Inl e | Inr t \<Rightarrow> Inr (c # t)))"
| "format_from vars (Some name) (c # cs) =
     (if c = CHR ''}'' then
        (case map_of vars (rev name) of
           None \<Rightarrow> Inl (KeyError (rev name))
         | Some v \<Rightarrow>
             (case format_from vars None cs of Inl e \<Rightarrow> Inl e | Inr t \<Rightarrow> Inr (py_str v @ t)))
      else format_from vars (Some (c # name)) cs)"

definition pyformat :: "string \<Rightarrow> (string \<times> pyval) list \<Rightarrow> error + string" where
  "pyformat template vars = format_from vars None template"

subsection \<open>\<^verbatim>\<open>_get_data_from_git\<close>\<close>

definition FALLBACK :: string where
  "FALLBACK = ''0+unknown''"

definition FALLBACK_WITH_SHA :: string where
  "FALLBACK_WITH_SHA = ''0+unknown.g{short}''"

text \<open>The dictionary the sources return.\<close>

record version_data =
  version :: string
  branch :: "string option"
  revision :: "string option"

definition FALLBACK_DICT :: version_data where
  "FALLBACK_DICT = \<lparr>version = FALLBACK, branch = None, revision = None\<rparr>"

text \<open>The four variables the rule loop assigns.\<close>

record rule_state =
  tag :: "string option"
  distance :: "int option"
  template :: string
  dirty :: string

text \<open>
  The loop over the rules: a rule whose matcher does not match the branch is passed
  over; the first that matches sets the four variables and ends the loop.
\<close>

fun match_rules ::
  "('m \<Rightarrow> string \<Rightarrow> bool) \<Rightarrow> (string option \<Rightarrow> int option) \<Rightarrow> string \<Rightarrow> rule_state \<Rightarrow> 'm rule list \<Rightarrow> rule_state"
where
  "match_rules rm dist b st [] = st"
| "match_rules rm dist b st ((matcher, virtual_tag, ref_commit) # rest) =
     (if \<not> rm matcher b then match_rules rm dist b st rest
      else \<lparr>tag = Some virtual_tag, distance = dist (Some ref_commit),
            template = ''{tag}.dev{distance}+g{short}'', dirty = ''.dirty''\<rparr>)"

text \<open>
  The variables after the rule loop, from the values read from git: the defaults come
  from the nearest tag, and the rules are parsed and tried when there is a branch.
\<close>

definition select_rule ::
  "(string \<Rightarrow> 'm option) \<Rightarrow> ('m \<Rightarrow> string \<Rightarrow> bool) \<Rightarrow> string \<Rightarrow> (string option \<Rightarrow> int option) \<Rightarrow>
   string option \<Rightarrow> string option \<Rightarrow> rule_state"
where
  "select_rule rc rm config dist branch0 tag0 =
     (let st = \<lparr>tag = tag0, distance = dist tag0, template = ''{tag}'', dirty = ''+g{short}.dirty''\<rparr>
      in case branch0 of
           None \<Rightarrow> st
         | Some b \<Rightarrow> match_rules rm dist b st (parse_branch_versions rc config))"

text \<open>The template once the dirty suffix is appended.\<close>

definition dirty_template :: "rule_state \<Rightarrow> bool \<Rightarrow> string" where
  "dirty_template st is_dirty = (if is_dirty then template st @ dirty st else template st)"

definition git_vars :: "rule_state \<Rightarrow> string option \<Rightarrow> string option \<Rightarrow> (string \<times> pyval) list" where
  "git_vars st sha short =
     [(''tag'', of_str (tag st)), (''distance'', of_int_opt (distance st)),
      (''full'', of_str sha), (''short'', of_str short)]"

text \<open>
  The template that is rendered: the fallback replaces the selected template when a
  variable that the template names is \<^verbatim>\<open>None\<close>.
\<close>

definition final_template :: "rule_state \<Rightarrow> bool \<Rightarrow> string option \<Rightarrow> string option \<Rightarrow> string" where
  "final_template st is_dirty sha short =
     (if list_ex (\<lambda>(x, v). v = PNone \<and> is_substring (''{'' @ x @ ''}'') (dirty_template st is_dirty))
           (git_vars st sha short)
      then (if short = None then FALLBACK else FALLBACK_WITH_SHA) @ (if is_dirty then ''.dirty'' else [])
      else dirty_template st is_dirty)"

text \<open>
  The body of \<^verbatim>\<open>_get_data_from_git\<close> after the five queries, up to the rendered version
  string, and then to its result.
\<close>

definition compose_version ::
  "(string \<Rightarrow> 'm option) \<Rightarrow> ('m \<Rightarrow> string \<Rightarrow> bool) \<Rightarrow> string \<Rightarrow> (string option \<Rightarrow> int option) \<Rightarrow>
   string option \<Rightarrow> bool \<Rightarrow> string option \<Rightarrow> string option \<Rightarrow> string option \<Rightarrow> error + string"
where
  "compose_version rc rm config dist branch0 is_dirty sha short tag0 =
     (let st = select_rule rc rm config dist branch0 tag0
      in pyformat (final_template st is_dirty sha short) (git_vars st sha short))"

definition compose_data ::
  "(string \<Rightarrow> 'm option) \<Rightarrow> ('m \<Rightarrow> string \<Rightarrow> bool) \<Rightarrow> string \<Rightarrow> (string option \<Rightarrow> int option) \<Rightarrow>
   string option \<Rightarrow> bool \<Rightarrow> string option \<Rightarrow> string option \<Rightarrow> string option \<Rightarrow>
   error + version_data option"
where
  "compose_data rc rm config dist branch0 is_dirty sha short tag0 =
     (case compose_version rc rm config dist branch0 is_dirty sha short tag0 of
        Inl e \<Rightarrow> Inl e
      | Inr v \<Rightarrow>
          (if \<not> validate_version v then Inr None
           else Inr (Some \<lparr>version = v, branch = branch0, revision = sha\<rparr>)))"

definition get_data_from_git ::
  "(string \<Rightarrow> 'm option) \<Rightarrow> ('m \<Rightarrow> string \<Rightarrow> bool) \<Rightarrow> string \<Rightarrow> git \<Rightarrow> error + version_data option"
where
  "get_data_from_git rc rm config g =
     compose_data rc rm config (get_distance g)
       (get_branch g) (get_dirty g) (get_long g) (get_short g) (get_tag g)"

subsection \<open>\<^verbatim>\<open>_get_data_from_static_file\<close>\<close>

text \<open>
  The static file, as the module finds it: missing, or present and executed, which binds
  names to values. The file is generated from \<^verbatim>\<open>STATIC_FILE_TEMPLATE\<close>, which writes every
  value as a string literal, so the bindings are a map from names to strings.
  \<^verbatim>\<open>open\<close> of a missing file raises \<^verbatim>\<open>FileNotFoundError\<close>, and \<^verbatim>\<open>data["version"]\<close> without
  that binding raises \<^verbatim>\<open>KeyError\<close>; the function catches neither.
\<close>

datatype static_file = Missing | Binds "string \<rightharpoonup> string"

definition get_data_from_static_file :: "static_file \<Rightarrow> error + version_data option" where
  "get_data_from_static_file f =
     (case f of
        Missing \<Rightarrow> Inl FileNotFoundError
      | Binds data \<Rightarrow>
          (case data ''version'' of
             None \<Rightarrow> Inl (KeyError ''version'')
           | Some v \<Rightarrow>
               (if v = ''__use_git__'' then Inr None
                else if \<not> validate_version v then Inr None
                else Inr (Some \<lparr>version = v, branch = data ''branch'',
                                 revision = data ''revision''\<rparr>))))"

subsection \<open>\<^verbatim>\<open>_get_data_from_keywords\<close>\<close>

text \<open>
  \<^verbatim>\<open>git_refnames\<close> and \<^verbatim>\<open>git_full\<close> are the two string literals of the function, which git
  rewrites in an exported archive; they are parameters here. \<^verbatim>\<open>refs\<close> is a Python set,
  and the list of branches is built by iterating over it: \<open>order\<close> gives the order in
  which a set with the given elements is iterated, which Python leaves open.
\<close>

definition keywords_refs :: "(string list \<Rightarrow> string list) \<Rightarrow> string \<Rightarrow> string list" where
  "keywords_refs order git_refnames =
     order (map (\<lambda>r. if startswith (strip r) ''HEAD -> '' then drop 8 (strip r) else strip r)
              (split_on CHR '','' (strip_chars ''()'' (strip git_refnames))))"

text \<open>\<^verbatim>\<open>re.search(r"\d", r)\<close> as a truth value: the string holds a decimal digit.\<close>

definition has_digit :: "string \<Rightarrow> bool" where
  "has_digit r = list_ex is_digit r"

definition keywords_tags :: "string list \<Rightarrow> string list" where
  "keywords_tags refs =
     (let tags = map (drop 5) (filter (\<lambda>r. startswith r ''tag: '') refs)
      in if tags = [] then filter has_digit refs else tags)"

text \<open>\<^verbatim>\<open>sorted(tags)[0] if tags else None\<close>.\<close>

definition keywords_tag :: "string list \<Rightarrow> string option" where
  "keywords_tag refs =
     (let tags = keywords_tags refs in if tags = [] then None else Some (hd (sort tags)))"

definition keywords_branches :: "string list \<Rightarrow> string list" where
  "keywords_branches refs =
     filter (\<lambda>r. \<not> startswith r ''tag: '' \<and> r \<noteq> ''HEAD'' \<and> \<not> startswith r ''refs/'') refs"

definition get_data_from_keywords ::
  "(string list \<Rightarrow> string list) \<Rightarrow> string \<Rightarrow> string \<Rightarrow> error + version_data option"
where
  "get_data_from_keywords order git_refnames git_full =
     (if startswith git_refnames ''$Format'' \<or> startswith git_full ''$Format'' then Inr None
      else
        (let refs = keywords_refs order git_refnames;
             tag0 = keywords_tag refs;
             branches = keywords_branches refs;
             branch0 = (if branches = [] then None else Some (hd branches));
             template0 = (if tag0 = None then FALLBACK_WITH_SHA else ''{tag}'')
         in case pyformat template0 [(''short'', PStr (take 8 git_full)), (''tag'', of_str tag0)] of
              Inl e \<Rightarrow> Inl e
            | Inr v \<Rightarrow>
                (if \<not> validate_version v then Inr None
                 else Inr (Some \<lparr>version = v, branch = branch0, revision = Some git_full\<rparr>))))"

subsection \<open>\<^verbatim>\<open>get_data\<close>\<close>

text \<open>Everything outside the module that a call of \<^verbatim>\<open>get_data\<close> reads.\<close>

record environment =
  static :: static_file
  git_refnames :: string
  git_full :: string
  set_order :: "string list \<Rightarrow> string list"
  git_client :: git

text \<open>
  The loop over the three methods: an exception of a method leaves \<^verbatim>\<open>get_data\<close>, data
  that is not \<^verbatim>\<open>None\<close> is returned, and after the last method \<^verbatim>\<open>FALLBACK_DICT\<close> is.
\<close>

fun first_data :: "(environment \<Rightarrow> error + version_data option) list \<Rightarrow> environment \<Rightarrow> error + version_data" where
  "first_data [] env = Inr FALLBACK_DICT"
| "first_data (method # rest) env =
     (case method env of
        Inl e \<Rightarrow> Inl e
      | Inr None \<Rightarrow> first_data rest env
      | Inr (Some data) \<Rightarrow> Inr data)"

text \<open>
  \<^verbatim>\<open>get_data\<close>, with the compiler and matcher of the regular expressions of the branch
  rules, and the text of \<^verbatim>\<open>BRANCH_VERSIONS\<close>.
\<close>

definition get_data ::
  "(string \<Rightarrow> 'm option) \<Rightarrow> ('m \<Rightarrow> string \<Rightarrow> bool) \<Rightarrow> string \<Rightarrow> environment \<Rightarrow> error + version_data"
where
  "get_data rc rm config env =
     first_data
       [\<lambda>e. get_data_from_static_file (static e),
        \<lambda>e. get_data_from_keywords (set_order e) (git_refnames e) (git_full e),
        \<lambda>e. get_data_from_git rc rm config (git_client e)]
       env"

subsection \<open>Notions used to state the properties\<close>

text \<open>
  A line makes the parser stop when it has exactly three tokens and the first does not
  compile. \<open>line_rule\<close> is the rule a line stands for, if it stands for one.
\<close>

definition line_aborts :: "(string \<Rightarrow> 'm option) \<Rightarrow> string \<Rightarrow> bool" where
  "line_aborts rc line = (length (line_tokens line) = 3 \<and> rc (line_tokens line ! 0) = None)"

definition line_rule :: "(string \<Rightarrow> 'm option) \<Rightarrow> string \<Rightarrow> 'm rule option" where
  "line_rule rc line =
     (if length (line_tokens line) = 3
      then map_option (\<lambda>matcher. (matcher, line_tokens line ! 1, line_tokens line ! 2))
             (rc (line_tokens line ! 0))
      else None)"

text \<open>The first rule of a table whose matcher matches the branch.\<close>

definition first_match :: "('m \<Rightarrow> string \<Rightarrow> bool) \<Rightarrow> 'm rule list \<Rightarrow> string \<Rightarrow> 'm rule option" where
  "first_match rm rules b = find (\<lambda>r. rm (fst r) b) rules"

text \<open>
  The rules that the lines of \<^verbatim>\<open>BRANCH_VERSIONS\<close> with three tokens stand for, in the
  order of the source: pattern, virtual tag, reference commit, with the pattern compiled.
\<close>

definition builtin_rules :: "rx rule list" where
  "builtin_rules =
     List.map_filter (\<lambda>(p, t, r). map_option (\<lambda>matcher. (matcher, t, r)) (re_compile p))
       [(''maintenance'', ''1.10.0'', ''cd955e9a46782119b36cc22b8dea5652ebbf9774''),
        (''fix/.*'', ''1.10.0'', ''cd955e9a46782119b36cc22b8dea5652ebbf9774''),
        (''improve/.*'', ''1.10.0'', ''cd955e9a46782119b36cc22b8dea5652ebbf9774''),
        (''staging/maintenance'', ''1.10.0rc2'', ''f1e7f3253cccfbc2cd2e445646fbc2d3b31250d1''),
        (''regressionfix/.*'', ''1.10.0rc2'', ''f1e7f3253cccfbc2cd2e445646fbc2d3b31250d1''),
        (''staging/devel'', ''1.4.1rc4'', ''650d54d1885409fa1d411eb54b9e8c7ff428910f''),
        (''devel'', ''2.0.0'', ''2da7aa358d950b4567aaab8f18d6b5779193e077''),
        (''dev/*'', ''2.0.0'', ''2da7aa358d950b4567aaab8f18d6b5779193e077''),
        (''feature/*'', ''2.0.0'', ''2da7aa358d950b4567aaab8f18d6b5779193e077'')]"

subsection \<open>Example inputs\<close>

text \<open>
  A checkout of the branch \<^verbatim>\<open>maintenance\<close>, seven commits after the reference commit of
  its rule; the flag says whether the working tree is dirty.
\<close>

definition maintenance_git :: "bool \<Rightarrow> git" where
  "maintenance_git is_dirty =
     map_of
       [([''rev-parse'', ''--abbrev-ref'', ''HEAD''], ''maintenance''),
        ([''describe'', ''--tags'', ''--dirty'', ''--always''],
           (if is_dirty then ''1.9.3-12-gabc1234-dirty'' else ''1.9.3-12-gabc1234'')),
        ([''rev-parse'', ''HEAD''], ''abc1234a46782119b36cc22b8dea5652ebbf9774''),
        ([''rev-parse'', ''--short'', ''HEAD''], ''abc1234''),
        ([''describe'', ''--tags'', ''--abbrev=0'', ''--always''], ''1.9.3''),
        ([''rev-list'', ''1.9.3..HEAD'', ''--count''], ''12''),
        ([''rev-list'', ''cd955e9a46782119b36cc22b8dea5652ebbf9774..HEAD'', ''--count''], ''7'')]"

text \<open>The markers of \<^verbatim>\<open>_get_data_from_keywords\<close> as they stand in the module.\<close>

definition unexpanded_refnames :: string where
  "unexpanded_refnames = ''$Format:%d$''"

definition unexpanded_full :: string where
  "unexpanded_full = ''$Format:%H$''"

text \<open>A checkout without the static file, and one whose static file defers to git.\<close>

definition checkout_without_static_file :: environment where
  "checkout_without_static_file =
     \<lparr>static = Missing, git_refnames = unexpanded_refnames, git_full = unexpanded_full,
      set_order = remdups, git_client = maintenance_git False\<rparr>"

definition checkout_use_git :: environment where
  "checkout_use_git =
     \<lparr>static = Binds [''version'' \<mapsto> ''__use_git__''], git_refnames = unexpanded_refnames,
      git_full = unexpanded_full, set_order = remdups, git_client = maintenance_git False\<rparr>"

text \<open>The ref names of an exported archive, as git expands \<^verbatim>\<open>%d\<close>.\<close>

definition archive_refnames :: string where
  "archive_refnames = '' (HEAD -> maintenance, tag: 1.9.3, tag: 1.10.0, origin/maintenance, refs/stash)''"

section \<open>Properties\<close>

subsection \<open>The matching functions decide the language of the pattern\<close>

lemma cls_ok_Nil: "cls_ok ic [] c = False"
  by (simp add: cls_ok_def)

lemma nullable_lang: "nullable r = ([] \<in> lang ic r)"
proof (induction r)
  case (Star r)
  have "[] = concat [] \<and> set [] \<subseteq> lang ic r" by simp
  then show ?case by (simp del: concat.simps set_simps) blast
qed auto

lemma lang_alt: "lang ic (alt r s) = lang ic r \<union> lang ic s"
  by (induction r s rule: alt.induct) (simp_all add: cls_ok_Nil)

lemma lang_seq: "lang ic (seq r s) = {u @ v | u v. u \<in> lang ic r \<and> v \<in> lang ic s}"
  by (induction r s rule: seq.induct) (simp_all add: cls_ok_Nil)

lemma star_Cons:
  "(\<exists>ws. c # w = concat ws \<and> set ws \<subseteq> L) =
   (\<exists>u ws. w = u @ concat ws \<and> c # u \<in> L \<and> set ws \<subseteq> L)"
proof
  assume "\<exists>ws. c # w = concat ws \<and> set ws \<subseteq> L"
  then obtain ws where "c # w = concat ws" "set ws \<subseteq> L" by blast
  then show "\<exists>u ws. w = u @ concat ws \<and> c # u \<in> L \<and> set ws \<subseteq> L"
  proof (induction ws)
    case Nil
    then show ?case by simp
  next
    case (Cons x xs)
    show ?case
    proof (cases x)
      case Nil
      with Cons show ?thesis by simp
    next
      case (Cons y ys)
      with Cons.prems have "y = c" "w = ys @ concat xs" "c # ys \<in> L" "set xs \<subseteq> L"
        by auto
      then show ?thesis by blast
    qed
  qed
next
  assume "\<exists>u ws. w = u @ concat ws \<and> c # u \<in> L \<and> set ws \<subseteq> L"
  then obtain u ws where "w = u @ concat ws" "c # u \<in> L" "set ws \<subseteq> L" by blast
  then have "c # w = concat ((c # u) # ws) \<and> set ((c # u) # ws) \<subseteq> L" by simp
  then show "\<exists>ws. c # w = concat ws \<and> set ws \<subseteq> L" by blast
qed

lemma deriv_lang: "lang ic (deriv ic c r) = {w. c # w \<in> lang ic r}"
proof (induction r)
  case Empty
  show ?case by (simp add: cls_ok_Nil)
next
  case (Cls its)
  show ?case by (auto simp: cls_ok_Nil)
next
  case (Alt r s)
  then show ?case by (auto simp: lang_alt)
next
  case (Seq r s)
  then show ?case
    by (auto simp: lang_alt lang_seq nullable_lang [of r ic] Cons_eq_append_conv)
next
  case (Star r)
  have "lang ic (deriv ic c (Star r)) =
      {u @ v | u v. c # u \<in> lang ic r \<and> v \<in> lang ic (Star r)}"
    by (simp add: lang_seq Star)
  also have "\<dots> = {w. \<exists>u ws. w = u @ concat ws \<and> c # u \<in> lang ic r \<and> set ws \<subseteq> lang ic r}"
    by auto
  also have "\<dots> = {w. c # w \<in> lang ic (Star r)}"
    using star_Cons [of c _ "lang ic r"] by simp
  finally show ?case .
qed

lemma fullmatch_lang: "fullmatch ic r s = (s \<in> lang ic r)"
  by (induction s arbitrary: r) (simp_all add: nullable_lang [of _ ic] deriv_lang)

lemma re_match_lang: "re_match ic r s = (\<exists>p. prefix p s \<and> p \<in> lang ic r)"
proof (induction s arbitrary: r)
  case Nil
  show ?case by (simp add: nullable_lang [of _ ic])
next
  case (Cons c cs)
  show ?case
    by (auto simp: Cons nullable_lang [of _ ic] deriv_lang prefix_Cons)
qed

subsection \<open>Letter case and the validator\<close>

lemma lower_lower: "lower (lower c) = lower c"
  by (simp add: lower_def)

lemma upper_lower: "upper (lower c) = upper c"
  by (simp add: lower_def upper_def)

lemma lower_upper: "lower (upper c) = lower c"
  by (simp add: lower_def upper_def)

lemma upper_upper: "upper (upper c) = upper c"
  by (simp add: upper_def)

lemma lower_or_upper: "c = lower c \<or> c = upper c"
  by (simp add: lower_def upper_def)

lemma is_space_lower: "is_space (lower c) = is_space c"
  by (simp add: lower_def is_space_def)

lemma is_space_upper: "is_space (upper c) = is_space c"
  by (simp add: upper_def is_space_def)

lemma LF_lower: "(lower c = LF) = (c = LF)"
  by (simp add: lower_def LF_def)

lemma LF_upper: "(upper c = LF) = (c = LF)"
  by (simp add: upper_def LF_def)

text \<open>Under \<^verbatim>\<open>re.IGNORECASE\<close> no item tells a character from its lower or upper case.\<close>

lemma item_ok_lower: "item_ok True it (lower c) = item_ok True it c"
proof (cases it)
  case (Rng a b)
  show ?thesis
    using lower_or_upper [of c] by (auto simp: Rng lower_lower upper_lower)
qed (simp_all add: lower_lower is_space_lower LF_lower)

lemma item_ok_upper: "item_ok True it (upper c) = item_ok True it c"
proof (cases it)
  case (Rng a b)
  show ?thesis
    using lower_or_upper [of c] by (auto simp: Rng lower_upper upper_upper)
qed (simp_all add: lower_upper is_space_upper LF_upper)

lemma cls_ok_lower: "cls_ok True its (lower c) = cls_ok True its c"
  by (simp add: cls_ok_def item_ok_lower)

lemma cls_ok_upper: "cls_ok True its (upper c) = cls_ok True its c"
  by (simp add: cls_ok_def item_ok_upper)

lemma deriv_lower: "deriv True (lower c) r = deriv True c r"
  by (induction r) (simp_all add: cls_ok_lower)

lemma deriv_upper: "deriv True (upper c) r = deriv True c r"
  by (induction r) (simp_all add: cls_ok_upper)

lemma fullmatch_lower: "fullmatch True r (map lower s) = fullmatch True r s"
  by (induction s arbitrary: r) (simp_all add: deriv_lower)

lemma fullmatch_upper: "fullmatch True r (map upper s) = fullmatch True r s"
  by (induction s arbitrary: r) (simp_all add: deriv_upper)

lemma alt_nothing_right: "alt r (Cls []) = r"
  by (cases "(r, Cls [])" rule: alt.cases) simp_all

lemma digit_not_space: "is_digit c \<Longrightarrow> \<not> is_space c"
  by (auto simp: is_digit_def is_space_def)

lemma digit_not_v: "is_digit c \<Longrightarrow> lower c \<noteq> CHR ''v''"
  by (auto simp: is_digit_def lower_def)

text \<open>Reading a \<^verbatim>\<open>v\<close> first leaves the body of the pattern; a digit skips the \<^verbatim>\<open>v?\<close>.\<close>

lemma deriv_v_body: "deriv True CHR ''v'' pep_body = Cls []"
  by code_simp

lemma deriv_v_regex: "deriv True CHR ''v'' PEP440_REGEX = pep_body"
  by (simp add: PEP440_REGEX_def opt_def cls_ok_def is_space_def lower_def deriv_v_body
      alt_nothing_right)

lemma deriv_digit_regex: "is_digit c \<Longrightarrow> deriv True c PEP440_REGEX = deriv True c pep_body"
  by (simp add: PEP440_REGEX_def opt_def cls_ok_def digit_not_space digit_not_v
      lower_def [of "CHR ''v''"])

lemma valid_rc: "validate_version ''1.10.0rc2''"
  by code_simp

lemma valid_dev_local: "validate_version ''2.0.0.dev0+gabc123''"
  by code_simp

lemma valid_post_dev: "validate_version ''1.9.4.post3.dev0''"
  by code_simp

lemma invalid_v1x: "\<not> validate_version ''v1.x''"
  by code_simp

lemma invalid_words: "\<not> validate_version ''not-a-version''"
  by code_simp

text \<open>
  C7. \<^verbatim>\<open>_validate_version\<close> is a function of the string alone. It accepts
  \<^verbatim>\<open>1.10.0rc2\<close>, \<^verbatim>\<open>2.0.0.dev0+gabc123\<close> and \<^verbatim>\<open>1.9.4.post3.dev0\<close>, and rejects \<^verbatim>\<open>v1.x\<close> and
  \<^verbatim>\<open>not-a-version\<close>. It is case-insensitive: changing the case of the letters of a string,
  to lower or to upper, does not change the verdict. It permits an optional leading \<^verbatim>\<open>v\<close>:
  a string that starts with a digit gets the same verdict with a \<^verbatim>\<open>v\<close> put in front.
\<close>

theorem validate_version_pep440:
  "validate_version ''1.10.0rc2'' \<and> validate_version ''2.0.0.dev0+gabc123''
   \<and> validate_version ''1.9.4.post3.dev0''
   \<and> \<not> validate_version ''v1.x'' \<and> \<not> validate_version ''not-a-version''
   \<and> validate_version (map lower s) = validate_version s
   \<and> validate_version (map upper s) = validate_version s
   \<and> (is_digit c \<longrightarrow> validate_version (CHR ''v'' # c # t) = validate_version (c # t))"
proof -
  have "validate_version (CHR ''v'' # c # t) = validate_version (c # t)" if "is_digit c"
    using that by (simp add: validate_version_def deriv_v_regex deriv_digit_regex)
  then show ?thesis
    using valid_rc valid_dev_local valid_post_dev invalid_v1x invalid_words
    by (simp add: validate_version_def fullmatch_lower fullmatch_upper)
qed

theorem validate_version_pep440_witness:
  "validate_version (map lower ''1.10.0RC2'') \<and> validate_version (map upper ''1.10.0rc2'')
   \<and> is_digit CHR ''1'' \<and> validate_version ''v1.10.0rc2''"
proof -
  have d: "is_digit CHR ''1''"
    by (simp add: is_digit_def)
  have l: "map lower ''1.10.0RC2'' = ''1.10.0rc2''"
    by (simp add: lower_def)
  show ?thesis
    using validate_version_pep440 [of "''1.10.0rc2''" "CHR ''1''" "''.10.0rc2''"] d l
    by simp
qed

subsection \<open>The rule loop and the rendering of the templates\<close>

lemma match_rules_none:
  "\<forall>r\<in>set rules. \<not> rm (fst r) b \<Longrightarrow> match_rules rm dist b st rules = st"
  by (induction rules) auto

lemma match_rules_first:
  "\<forall>r\<in>set pre. \<not> rm (fst r) b \<Longrightarrow> rm m b \<Longrightarrow>
   match_rules rm dist b st (pre @ (m, vt, ref) # post) =
     \<lparr>tag = Some vt, distance = dist (Some ref),
      template = ''{tag}.dev{distance}+g{short}'', dirty = ''.dirty''\<rparr>"
  by (induction pre) auto

lemma match_rules_shape:
  "template st = ''{tag}'' \<and> dirty st = ''+g{short}.dirty'' \<Longrightarrow>
   (template (match_rules rm dist b st rules) = ''{tag}''
      \<and> dirty (match_rules rm dist b st rules) = ''+g{short}.dirty'')
   \<or> (template (match_rules rm dist b st rules) = ''{tag}.dev{distance}+g{short}''
      \<and> dirty (match_rules rm dist b st rules) = ''.dirty'')"
  by (induction rules) (auto split: if_splits)

lemma select_rule_shape:
  "(template (select_rule rc rm config dist br tg) = ''{tag}''
      \<and> dirty (select_rule rc rm config dist br tg) = ''+g{short}.dirty'')
   \<or> (template (select_rule rc rm config dist br tg) = ''{tag}.dev{distance}+g{short}''
      \<and> dirty (select_rule rc rm config dist br tg) = ''.dirty'')"
proof (cases br)
  case None
  then show ?thesis by (simp add: select_rule_def)
next
  case (Some b)
  show ?thesis
    using match_rules_shape [of "\<lparr>tag = tg, distance = dist tg, template = ''{tag}'', dirty = ''+g{short}.dirty''\<rparr>" rm dist b "parse_branch_versions rc config"]
    by (simp add: select_rule_def Some)
qed

lemma render_default_clean:
  "template st = ''{tag}'' \<Longrightarrow> tag st = Some t \<Longrightarrow>
   pyformat (final_template st False sha short) (git_vars st sha short) = Inr t"
  by (simp add: final_template_def dirty_template_def git_vars_def pyformat_def of_str_def
      of_int_opt_def py_str_def startswith_def split: option.splits)

lemma render_default_dirty:
  "template st = ''{tag}'' \<Longrightarrow> dirty st = ''+g{short}.dirty'' \<Longrightarrow> tag st = Some t \<Longrightarrow> short = Some s \<Longrightarrow>
   pyformat (final_template st True sha short) (git_vars st sha short) = Inr (t @ ''+g'' @ s @ ''.dirty'')"
  by (simp add: final_template_def dirty_template_def git_vars_def pyformat_def of_str_def
      of_int_opt_def py_str_def startswith_def split: option.splits)

lemma render_rule:
  "template st = ''{tag}.dev{distance}+g{short}'' \<Longrightarrow> dirty st = ''.dirty'' \<Longrightarrow>
   tag st = Some t \<Longrightarrow> distance st = Some d \<Longrightarrow> short = Some s \<Longrightarrow>
   pyformat (final_template st is_dirty sha short) (git_vars st sha short) =
     Inr (t @ ''.dev'' @ show_int d @ ''+g'' @ s @ (if is_dirty then ''.dirty'' else []))"
  by (simp add: final_template_def dirty_template_def git_vars_def pyformat_def of_str_def
      of_int_opt_def py_str_def startswith_def split: option.splits)

lemma render_fallback:
  "(tag st = None \<and> is_substring ''{tag}'' (dirty_template st is_dirty))
   \<or> (distance st = None \<and> is_substring ''{distance}'' (dirty_template st is_dirty))
   \<or> (short = None \<and> is_substring ''{short}'' (dirty_template st is_dirty)) \<Longrightarrow>
   pyformat (final_template st is_dirty sha short) (git_vars st sha short) =
     Inr ((case short of None \<Rightarrow> ''0+unknown'' | Some s \<Rightarrow> ''0+unknown.g'' @ s)
          @ (if is_dirty then ''.dirty'' else []))"
  by (auto simp: final_template_def git_vars_def pyformat_def of_str_def
      of_int_opt_def py_str_def FALLBACK_def FALLBACK_WITH_SHA_def split: option.splits)

lemma render_total:
  assumes "(template st = ''{tag}'' \<and> dirty st = ''+g{short}.dirty'')
     \<or> (template st = ''{tag}.dev{distance}+g{short}'' \<and> dirty st = ''.dirty'')"
  shows "\<exists>v. pyformat (final_template st is_dirty sha short) (git_vars st sha short) = Inr v"
  using assms
  by (cases "tag st"; cases "distance st"; cases short; cases is_dirty)
     (auto simp: final_template_def dirty_template_def git_vars_def pyformat_def of_str_def
      of_int_opt_def py_str_def FALLBACK_def FALLBACK_WITH_SHA_def startswith_def)

lemma compose_version_total:
  "\<exists>v. compose_version rc rm config dist br is_dirty sha short tg = Inr v"
  unfolding compose_version_def Let_def
  by (rule render_total) (rule select_rule_shape)

lemma compose_data_total:
  "\<exists>r. compose_data rc rm config dist br is_dirty sha short tg = Inr r"
  using compose_version_total [of rc rm config dist br is_dirty sha short tg]
  by (auto simp: compose_data_def)

lemma get_data_from_git_total: "\<exists>r. get_data_from_git rc rm config g = Inr r"
  by (simp add: get_data_from_git_def compose_data_total)

lemma get_data_from_keywords_total: "\<exists>r. get_data_from_keywords order rn gf = Inr r"
  by (cases "keywords_tag (keywords_refs order rn)")
     (simp_all add: get_data_from_keywords_def Let_def pyformat_def of_str_def py_str_def
       FALLBACK_WITH_SHA_def)

lemma static_gated:
  "get_data_from_static_file f = Inr (Some d) \<Longrightarrow> validate_version (version d)"
  by (auto simp: get_data_from_static_file_def split: static_file.splits option.splits if_splits)

lemma keywords_gated:
  "get_data_from_keywords order rn gf = Inr (Some d) \<Longrightarrow> validate_version (version d)"
  by (auto simp: get_data_from_keywords_def Let_def split: if_splits sum.splits)

lemma git_gated:
  "get_data_from_git rc rm config g = Inr (Some d) \<Longrightarrow> validate_version (version d)"
  by (auto simp: get_data_from_git_def compose_data_def split: if_splits sum.splits)

lemma fallback_valid: "validate_version (version FALLBACK_DICT)"
  by code_simp

lemma get_data_cases:
  "get_data rc rm config env =
     (case get_data_from_static_file (static env) of
        Inl e \<Rightarrow> Inl e
      | Inr (Some d) \<Rightarrow> Inr d
      | Inr None \<Rightarrow>
          (case get_data_from_keywords (set_order env) (git_refnames env) (git_full env) of
             Inl e \<Rightarrow> Inl e
           | Inr (Some d) \<Rightarrow> Inr d
           | Inr None \<Rightarrow>
               (case get_data_from_git rc rm config (git_client env) of
                  Inl e \<Rightarrow> Inl e
                | Inr (Some d) \<Rightarrow> Inr d
                | Inr None \<Rightarrow> Inr FALLBACK_DICT)))"
  by (simp add: get_data_def split: sum.splits option.splits)

text \<open>
  C3. Whenever \<^verbatim>\<open>get_data\<close> returns data, its version passes \<^verbatim>\<open>_validate_version\<close>: each
  of the three sources returns data only behind that check (\<open>static_gated\<close>,
  \<open>keywords_gated\<close>, \<open>git_gated\<close>), and the constant \<^verbatim>\<open>0+unknown\<close> of the last resort passes
  it. The statement is not empty: with a static file that binds \<^verbatim>\<open>version\<close>, \<^verbatim>\<open>get_data\<close>
  does return data.
\<close>

theorem get_data_version_valid:
  "(get_data rc rm config env = Inr d \<longrightarrow> validate_version (version d))
   \<and> validate_version FALLBACK
   \<and> ((\<exists>data v. static env = Binds data \<and> data ''version'' = Some v) \<longrightarrow>
        (\<exists>d'. get_data rc rm config env = Inr d'))"
proof -
  have a: "validate_version (version d)" if "get_data rc rm config env = Inr d"
    using that static_gated keywords_gated git_gated fallback_valid
    by (auto simp: get_data_cases split: sum.splits option.splits)
  have b: "validate_version FALLBACK"
    using fallback_valid by (simp add: FALLBACK_DICT_def)
  have c: "\<exists>d'. get_data rc rm config env = Inr d'"
    if "static env = Binds data" "data ''version'' = Some v" for data v
  proof -
    have "\<exists>r. get_data_from_static_file (static env) = Inr r"
      using that by (simp add: get_data_from_static_file_def)
    then show ?thesis
      using get_data_from_keywords_total [of "set_order env" "git_refnames env" "git_full env"]
        get_data_from_git_total [of rc rm config "git_client env"]
      by (auto simp: get_data_cases split: sum.splits option.splits)
  qed
  from a b c show ?thesis by blast
qed

subsection \<open>Parsing the branch rules\<close>

lemma parse_lines_closed:
  "parse_lines rc acc ls =
     acc @ List.map_filter (line_rule rc) (takeWhile (\<lambda>l. \<not> line_aborts rc l) ls)"
proof (induction ls arbitrary: acc)
  case Nil
  show ?case by (simp add: List.map_filter_simps)
next
  case (Cons l ls)
  show ?case
    by (cases "rc (line_tokens l ! 0)")
       (simp_all add: Cons.IH Let_def line_aborts_def line_rule_def List.map_filter_simps)
qed

lemma splitlines_Nil: "splitlines [] = []"
  by (simp add: splitlines_def)

text \<open>
  C1, as the code has it. The table is made of the rules of the lines with three tokens,
  in line order, up to the first line with three tokens whose first token does not
  compile: a line with another number of tokens is passed over and parsing goes on, and
  at a pattern that does not compile parsing stops with the rules found so far.
\<close>

theorem parse_branch_versions_lines:
  "parse_branch_versions rc config =
     List.map_filter (line_rule rc) (takeWhile (\<lambda>l. \<not> line_aborts rc l) (splitlines config))"
  by (simp add: parse_branch_versions_def parse_lines_closed splitlines_Nil List.map_filter_simps)

text \<open>
  C1 as stated fails. A valid rule followed by a line with two fields gives a table of
  one rule, not an empty one; a valid rule followed by a line whose pattern does not
  compile gives that one rule too; and a rule after the line with two fields is still
  read.
\<close>

theorem parse_keeps_rules_counterexample:
  "map snd (parse_branch_versions re_compile
       ''maintenance 1.10.0 cd955e9a\<newline>fix/.* 1.10.0'') = [(''1.10.0'', ''cd955e9a'')]
   \<and> map snd (parse_branch_versions re_compile
       ''maintenance 1.10.0 cd955e9a\<newline>*fix 1.10.0 cd955e9a\<newline>devel 2.0.0 2da7aa35'')
       = [(''1.10.0'', ''cd955e9a'')]
   \<and> map snd (parse_branch_versions re_compile
       ''maintenance 1.10.0 cd955e9a\<newline>fix/.* 1.10.0\<newline>devel 2.0.0 2da7aa35'')
       = [(''1.10.0'', ''cd955e9a''), (''2.0.0'', ''2da7aa35'')]"
  by code_simp

lemma parse_builtin: "parse_branch_versions re_compile BRANCH_VERSIONS = builtin_rules"
  by code_simp

lemma length_builtin: "length builtin_rules = 9"
  by code_simp

lemma re_match_nothing: "re_match ic (Cls []) s = False"
  by (induction s) (simp_all add: cls_ok_def)

lemma builtin_staging_bugfix: "first_match matcher_match builtin_rules ''staging/bugfix'' = None"
  by code_simp

lemma builtin_bug: "first_match matcher_match builtin_rules (''bug/'' @ rest) = None"
  by (simp add: first_match_def builtin_rules_def List.map_filter_simps re_compile_def
      is_meta_def matcher_match_def cls_ok_def re_match_nothing)

subsection \<open>Composition\<close>

lemma match_rules_first_match:
  "match_rules rm dist b st rules =
     (case first_match rm rules b of
        None \<Rightarrow> st
      | Some (m, vt, ref) \<Rightarrow>
          \<lparr>tag = Some vt, distance = dist (Some ref),
           template = ''{tag}.dev{distance}+g{short}'', dirty = ''.dirty''\<rparr>)"
  by (induction rules) (auto simp: first_match_def)

lemma compose_matched:
  assumes "first_match rm (parse_branch_versions rc config) b = Some (m, vt, ref)"
    and "dist (Some ref) = Some d" and "short = Some s"
  shows "compose_version rc rm config dist (Some b) is_dirty sha short tag0 =
     Inr (vt @ ''.dev'' @ show_int d @ ''+g'' @ s @ (if is_dirty then ''.dirty'' else []))"
  unfolding compose_version_def Let_def
  by (rule render_rule) (simp_all add: select_rule_def match_rules_first_match assms)

lemma select_rule_unmatched:
  assumes "branch0 = None
     \<or> (\<exists>b. branch0 = Some b \<and> first_match rm (parse_branch_versions rc config) b = None)"
  shows "select_rule rc rm config dist branch0 tag0 =
     \<lparr>tag = tag0, distance = dist tag0, template = ''{tag}'', dirty = ''+g{short}.dirty''\<rparr>"
  using assms by (auto simp: select_rule_def match_rules_first_match)

lemma compose_unmatched_clean:
  assumes "branch0 = None
     \<or> (\<exists>b. branch0 = Some b \<and> first_match rm (parse_branch_versions rc config) b = None)"
    and "tag0 = Some t"
  shows "compose_version rc rm config dist branch0 False sha short tag0 = Inr t"
  unfolding compose_version_def Let_def
  by (rule render_default_clean) (simp_all add: select_rule_unmatched [OF assms(1)] assms(2))

lemma compose_unmatched_dirty:
  assumes "branch0 = None
     \<or> (\<exists>b. branch0 = Some b \<and> first_match rm (parse_branch_versions rc config) b = None)"
    and "tag0 = Some t" and "short = Some s"
  shows "compose_version rc rm config dist branch0 True sha short tag0 =
     Inr (t @ ''+g'' @ s @ ''.dirty'')"
  unfolding compose_version_def Let_def
  by (rule render_default_dirty) (simp_all add: select_rule_unmatched [OF assms(1)] assms(2,3))

lemma compose_data_version:
  "compose_version rc rm config dist branch0 is_dirty sha short tag0 = Inr v \<Longrightarrow>
   compose_data rc rm config dist branch0 is_dirty sha short tag0 =
     (if validate_version v then Inr (Some \<lparr>version = v, branch = branch0, revision = sha\<rparr>)
      else Inr None)"
  by (simp add: compose_data_def)

lemma builtin_maintenance:
  "first_match matcher_match builtin_rules ''maintenance'' =
     map_option (\<lambda>m. (m, ''1.10.0'', ''cd955e9a46782119b36cc22b8dea5652ebbf9774''))
       (re_compile ''maintenance'')"
  by code_simp

lemma compile_maintenance: "\<exists>m. re_compile ''maintenance'' = Some m"
  by (simp add: re_compile_def is_meta_def)

lemma builtin_release: "first_match matcher_match builtin_rules ''release/x'' = None"
  by code_simp

lemma show_int_7: "show_int 7 = ''7''"
  by code_simp

lemma valid_maintenance: "validate_version ''1.10.0.dev7+gabc1234''"
  by code_simp

lemma valid_maintenance_dirty: "validate_version ''1.10.0.dev7+gabc1234.dirty''"
  by code_simp

lemma maintenance_queries:
  "get_branch (maintenance_git x) = Some ''maintenance''"
  "get_long (maintenance_git x) = Some ''abc1234a46782119b36cc22b8dea5652ebbf9774''"
  "get_short (maintenance_git x) = Some ''abc1234''"
  "get_tag (maintenance_git x) = Some ''1.9.3''"
  by (simp_all add: maintenance_git_def get_branch_def get_long_def get_short_def get_tag_def)

lemma maintenance_dirty: "get_dirty (maintenance_git x) = x"
  by (simp add: maintenance_git_def get_dirty_def endswith_def)

lemma py_int_7: "py_int ''7'' = Some 7"
  by code_simp

lemma maintenance_distance:
  "get_distance (maintenance_git x) (Some ''cd955e9a46782119b36cc22b8dea5652ebbf9774'') = Some 7"
  by (simp add: maintenance_git_def get_distance_def py_int_7)

lemma maintenance_rule:
  "first_match matcher_match (parse_branch_versions re_compile BRANCH_VERSIONS) ''maintenance'' =
     Some (the (re_compile ''maintenance''), ''1.10.0'', ''cd955e9a46782119b36cc22b8dea5652ebbf9774'')"
  using compile_maintenance by (auto simp: parse_builtin builtin_maintenance)

lemma maintenance_clean_data:
  "get_data_from_git re_compile matcher_match BRANCH_VERSIONS (maintenance_git False) =
     Inr (Some \<lparr>version = ''1.10.0.dev7+gabc1234'', branch = Some ''maintenance'',
          revision = Some ''abc1234a46782119b36cc22b8dea5652ebbf9774''\<rparr>)"
proof -
  have "compose_version re_compile matcher_match BRANCH_VERSIONS
      (get_distance (maintenance_git False)) (Some ''maintenance'') False
      (Some ''abc1234a46782119b36cc22b8dea5652ebbf9774'') (Some ''abc1234'') (Some ''1.9.3'')
      = Inr ''1.10.0.dev7+gabc1234''"
    using compose_matched [where dist = "get_distance (maintenance_git False)"
        and short = "Some ''abc1234''" and is_dirty = False
        and sha = "Some ''abc1234a46782119b36cc22b8dea5652ebbf9774''" and ?tag0.0 = "Some ''1.9.3''",
        OF maintenance_rule maintenance_distance refl]
    by (simp add: show_int_7)
  from compose_data_version [OF this] show ?thesis
    by (simp add: get_data_from_git_def maintenance_queries maintenance_dirty valid_maintenance)
qed

lemma use_git_data:
  "get_data re_compile matcher_match BRANCH_VERSIONS checkout_use_git =
     Inr \<lparr>version = ''1.10.0.dev7+gabc1234'', branch = Some ''maintenance'',
          revision = Some ''abc1234a46782119b36cc22b8dea5652ebbf9774''\<rparr>"
proof -
  have s: "get_data_from_static_file (static checkout_use_git) = Inr None"
    by (simp add: checkout_use_git_def get_data_from_static_file_def)
  have k: "get_data_from_keywords (set_order checkout_use_git) (git_refnames checkout_use_git)
      (git_full checkout_use_git) = Inr None"
    by (simp add: checkout_use_git_def get_data_from_keywords_def unexpanded_refnames_def
        startswith_def)
  have g: "git_client checkout_use_git = maintenance_git False"
    by (simp add: checkout_use_git_def)
  show ?thesis
    by (simp add: get_data_cases s k g maintenance_clean_data)
qed

lemma use_git_static: "static checkout_use_git = Binds [''version'' \<mapsto> ''__use_git__'']"
  by (simp add: checkout_use_git_def)

theorem get_data_version_valid_witness:
  "static checkout_use_git = Binds [''version'' \<mapsto> ''__use_git__'']
   \<and> get_data re_compile matcher_match BRANCH_VERSIONS checkout_use_git =
       Inr \<lparr>version = ''1.10.0.dev7+gabc1234'', branch = Some ''maintenance'',
            revision = Some ''abc1234a46782119b36cc22b8dea5652ebbf9774''\<rparr>
   \<and> validate_version ''1.10.0.dev7+gabc1234''"
proof -
  have "validate_version (version \<lparr>version = ''1.10.0.dev7+gabc1234'', branch = Some ''maintenance'',
            revision = Some ''abc1234a46782119b36cc22b8dea5652ebbf9774''\<rparr>)"
    using get_data_version_valid [of re_compile matcher_match BRANCH_VERSIONS checkout_use_git]
      use_git_data by blast
  then show ?thesis
    using use_git_static use_git_data by (simp only: version_data.simps simp_thms)
qed

lemma static_missing_raises:
  "static env = Missing \<Longrightarrow> get_data rc rm config env = Inl FileNotFoundError"
  by (simp add: get_data_def get_data_from_static_file_def)

text \<open>
  C2. In a checkout without the static file, \<^verbatim>\<open>get_data\<close> does not go on to the next
  source: the \<^verbatim>\<open>FileNotFoundError\<close> of \<^verbatim>\<open>open\<close> leaves it.
\<close>

theorem get_data_without_static_file:
  "get_data re_compile matcher_match BRANCH_VERSIONS checkout_without_static_file
     = Inl FileNotFoundError"
  by (rule static_missing_raises) (simp add: checkout_without_static_file_def)

text \<open>
  C4. When the branch is present and \<open>(m, vt, ref)\<close> is the first rule whose matcher
  matches it, and the distance from \<open>ref\<close> and the short commit id are known, the version
  is \<^verbatim>\<open>{tag}.dev{distance}+g{short}\<close> rendered with the virtual tag \<open>vt\<close> and that
  distance, with \<^verbatim>\<open>.dirty\<close> appended exactly when the tree is dirty; it is the version
  of the data returned if it is valid.
\<close>

theorem compose_version_rule_matched:
  assumes "first_match rm (parse_branch_versions rc config) b = Some (m, vt, ref)"
    and "dist (Some ref) = Some d" and "short = Some s"
  shows "compose_version rc rm config dist (Some b) is_dirty sha short tag0 =
       Inr (vt @ ''.dev'' @ show_int d @ ''+g'' @ s @ (if is_dirty then ''.dirty'' else []))
     \<and> compose_data rc rm config dist (Some b) is_dirty sha short tag0 =
       (if validate_version
             (vt @ ''.dev'' @ show_int d @ ''+g'' @ s @ (if is_dirty then ''.dirty'' else []))
        then Inr (Some \<lparr>version =
               vt @ ''.dev'' @ show_int d @ ''+g'' @ s @ (if is_dirty then ''.dirty'' else []),
             branch = Some b, revision = sha\<rparr>)
        else Inr None)"
proof -
  have v: "compose_version rc rm config dist (Some b) is_dirty sha short tag0 =
       Inr (vt @ ''.dev'' @ show_int d @ ''+g'' @ s @ (if is_dirty then ''.dirty'' else []))"
    using assms by (rule compose_matched)
  show ?thesis
    using v compose_data_version [OF v] by simp
qed

theorem compose_version_rule_matched_witness:
  "first_match matcher_match (parse_branch_versions re_compile BRANCH_VERSIONS) ''maintenance'' =
     Some (the (re_compile ''maintenance''), ''1.10.0'', ''cd955e9a46782119b36cc22b8dea5652ebbf9774'')
   \<and> get_distance (maintenance_git False) (Some ''cd955e9a46782119b36cc22b8dea5652ebbf9774'') = Some 7
   \<and> compose_version re_compile matcher_match BRANCH_VERSIONS (get_distance (maintenance_git False))
        (Some ''maintenance'') False (Some ''abc1234a46782119b36cc22b8dea5652ebbf9774'')
        (Some ''abc1234'') (Some ''1.9.3'') = Inr ''1.10.0.dev7+gabc1234''
   \<and> compose_version re_compile matcher_match BRANCH_VERSIONS (get_distance (maintenance_git False))
        (Some ''maintenance'') True (Some ''abc1234a46782119b36cc22b8dea5652ebbf9774'')
        (Some ''abc1234'') (Some ''1.9.3'') = Inr ''1.10.0.dev7+gabc1234.dirty''"
  using compose_version_rule_matched [where dist = "get_distance (maintenance_git False)"
      and short = "Some ''abc1234''" and is_dirty = False
      and sha = "Some ''abc1234a46782119b36cc22b8dea5652ebbf9774''" and ?tag0.0 = "Some ''1.9.3''",
      OF maintenance_rule maintenance_distance refl]
    compose_version_rule_matched [where dist = "get_distance (maintenance_git False)"
      and short = "Some ''abc1234''" and is_dirty = True
      and sha = "Some ''abc1234a46782119b36cc22b8dea5652ebbf9774''" and ?tag0.0 = "Some ''1.9.3''",
      OF maintenance_rule maintenance_distance refl]
    maintenance_rule maintenance_distance [of False]
  by (simp add: show_int_7)

lemma release_rule:
  "first_match matcher_match (parse_branch_versions re_compile BRANCH_VERSIONS) ''release/x'' = None"
  by (simp add: parse_builtin builtin_release)

text \<open>
  C5. When the branch is absent or no rule matches it, and the nearest tag and the short
  commit id are known, the version is the nearest tag itself when the tree is clean, and
  the nearest tag followed by \<^verbatim>\<open>+g<short>.dirty\<close> when it is dirty. The distance is not
  part of it: whatever the distance query answers, the version is the same.
\<close>

theorem compose_version_nearest_tag:
  assumes "branch0 = None
     \<or> (\<exists>b. branch0 = Some b \<and> first_match rm (parse_branch_versions rc config) b = None)"
    and "tag0 = Some t" and "short = Some s"
  shows "compose_version rc rm config dist branch0 is_dirty sha short tag0 =
       Inr (if is_dirty then t @ ''+g'' @ s @ ''.dirty'' else t)
     \<and> compose_version rc rm config dist' branch0 is_dirty sha short tag0 =
       compose_version rc rm config dist branch0 is_dirty sha short tag0"
proof -
  have "compose_version rc rm config f branch0 is_dirty sha short tag0 =
       Inr (if is_dirty then t @ ''+g'' @ s @ ''.dirty'' else t)" for f
    using compose_unmatched_clean [OF assms(1,2)] compose_unmatched_dirty [OF assms]
    by (cases is_dirty) simp_all
  then show ?thesis by simp
qed

theorem compose_version_nearest_tag_witness:
  "first_match matcher_match (parse_branch_versions re_compile BRANCH_VERSIONS) ''release/x'' = None
   \<and> compose_version re_compile matcher_match BRANCH_VERSIONS (\<lambda>r. Some 3) (Some ''release/x'')
        False (Some ''abc1234a46782119b36cc22b8dea5652ebbf9774'') (Some ''abc1234'') (Some ''1.2.3'')
        = Inr ''1.2.3''
   \<and> compose_version re_compile matcher_match BRANCH_VERSIONS (\<lambda>r. Some 3) (Some ''release/x'')
        True (Some ''abc1234a46782119b36cc22b8dea5652ebbf9774'') (Some ''abc1234'') (Some ''1.2.3'')
        = Inr ''1.2.3+gabc1234.dirty''
   \<and> compose_version re_compile matcher_match BRANCH_VERSIONS (\<lambda>r. Some 3) None
        False (Some ''abc1234a46782119b36cc22b8dea5652ebbf9774'') (Some ''abc1234'') (Some ''1.2.3'')
        = Inr ''1.2.3''"
proof -
  have a: "Some ''release/x'' = None
     \<or> (\<exists>b. Some ''release/x'' = Some b
          \<and> first_match matcher_match (parse_branch_versions re_compile BRANCH_VERSIONS) b = None)"
    using release_rule by simp
  have b: "(None :: string option) = None
     \<or> (\<exists>b. None = Some b
          \<and> first_match matcher_match (parse_branch_versions re_compile BRANCH_VERSIONS) b = None)"
    by simp
  show ?thesis
    using compose_version_nearest_tag [OF a refl refl, where dist = "\<lambda>r. Some 3" and is_dirty = False]
      compose_version_nearest_tag [OF a refl refl, where dist = "\<lambda>r. Some 3" and is_dirty = True]
      compose_version_nearest_tag [OF b refl refl, where dist = "\<lambda>r. Some 3" and is_dirty = False]
      release_rule
    by simp
qed

text \<open>
  C6. When the tag, the distance or the short commit id is absent and the selected
  template (with its dirty suffix) names it, the version is \<^verbatim>\<open>0+unknown.g<short>\<close> if
  the short commit id is known and \<^verbatim>\<open>0+unknown\<close> if not, with \<^verbatim>\<open>.dirty\<close> appended when
  the tree is dirty. The witness: no branch and no tag, clean, gives
  \<^verbatim>\<open>0+unknown.gdeadbee\<close> with the short id \<^verbatim>\<open>deadbee\<close> and \<^verbatim>\<open>0+unknown\<close> with none.
\<close>

theorem compose_version_fallback:
  assumes "st = select_rule rc rm config dist branch0 tag0"
    and "(tag st = None \<and> is_substring ''{tag}'' (dirty_template st is_dirty))
     \<or> (distance st = None \<and> is_substring ''{distance}'' (dirty_template st is_dirty))
     \<or> (short = None \<and> is_substring ''{short}'' (dirty_template st is_dirty))"
  shows "compose_version rc rm config dist branch0 is_dirty sha short tag0 =
     Inr ((case short of None \<Rightarrow> ''0+unknown'' | Some s \<Rightarrow> ''0+unknown.g'' @ s)
          @ (if is_dirty then ''.dirty'' else []))"
  using render_fallback [OF assms(2)] by (simp add: compose_version_def assms(1))

lemma no_branch_no_tag:
  "tag (select_rule rc rm config dist None None) = None
   \<and> is_substring ''{tag}'' (dirty_template (select_rule rc rm config dist None None) False)"
  by (simp add: select_rule_def dirty_template_def startswith_def)

theorem compose_version_fallback_witness:
  "tag (select_rule re_compile matcher_match BRANCH_VERSIONS (\<lambda>r. None) None None) = None
   \<and> is_substring ''{tag}''
        (dirty_template (select_rule re_compile matcher_match BRANCH_VERSIONS (\<lambda>r. None) None None) False)
   \<and> compose_version re_compile matcher_match BRANCH_VERSIONS (\<lambda>r. None) None False
        (Some ''deadbeef46782119b36cc22b8dea5652ebbf9774'') (Some ''deadbee'') None
        = Inr ''0+unknown.gdeadbee''
   \<and> compose_version re_compile matcher_match BRANCH_VERSIONS (\<lambda>r. None) None False None None None
        = Inr ''0+unknown''"
proof -
  have h: "(tag (select_rule re_compile matcher_match BRANCH_VERSIONS (\<lambda>r. None) None None) = None
       \<and> is_substring ''{tag}'' (dirty_template
            (select_rule re_compile matcher_match BRANCH_VERSIONS (\<lambda>r. None) None None) False))
     \<or> (distance (select_rule re_compile matcher_match BRANCH_VERSIONS (\<lambda>r. None) None None) = None
       \<and> is_substring ''{distance}'' (dirty_template
            (select_rule re_compile matcher_match BRANCH_VERSIONS (\<lambda>r. None) None None) False))
     \<or> (short = None
       \<and> is_substring ''{short}'' (dirty_template
            (select_rule re_compile matcher_match BRANCH_VERSIONS (\<lambda>r. None) None None) False))"
    for short :: "string option"
    using no_branch_no_tag by blast
  show ?thesis
    using compose_version_fallback [OF refl h, where short = "Some ''deadbee''"
        and sha = "Some ''deadbeef46782119b36cc22b8dea5652ebbf9774''"]
      compose_version_fallback [OF refl h, where short = None and sha = None]
      no_branch_no_tag [of re_compile matcher_match BRANCH_VERSIONS "\<lambda>r. None"]
    by simp
qed

lemma four_tokens:
  "length (line_tokens ''staging/bugfix 1.9.4 506648c152681bf4b1416cf2b5aaf97d526ee752 pep440-dev'') = 4
   \<and> length (line_tokens ''bug/.* 1.9.4 506648c152681bf4b1416cf2b5aaf97d526ee752 pep440-dev'') = 4"
  by code_simp

lemma builtin_tags:
  "map (\<lambda>r. fst (snd r)) builtin_rules =
     [''1.10.0'', ''1.10.0'', ''1.10.0'', ''1.10.0rc2'', ''1.10.0rc2'', ''1.4.1rc4'',
      ''2.0.0'', ''2.0.0'', ''2.0.0'']"
  by code_simp

text \<open>
  C9. Parsing the constant \<^verbatim>\<open>BRANCH_VERSIONS\<close> gives exactly the nine rules of
  \<open>builtin_rules\<close>, in the order of the source. The two lines that end in \<^verbatim>\<open>pep440-dev\<close>
  have four tokens and give no rule (no rule carries the tag \<^verbatim>\<open>1.9.4\<close>), so the branch
  \<^verbatim>\<open>staging/bugfix\<close> and every branch that starts with \<^verbatim>\<open>bug/\<close> match no rule: the rule
  loop leaves its variables as they were.
\<close>

theorem parse_builtin_branch_versions:
  "parse_branch_versions re_compile BRANCH_VERSIONS = builtin_rules
   \<and> length builtin_rules = 9
   \<and> map (\<lambda>r. fst (snd r)) builtin_rules =
       [''1.10.0'', ''1.10.0'', ''1.10.0'', ''1.10.0rc2'', ''1.10.0rc2'', ''1.4.1rc4'',
        ''2.0.0'', ''2.0.0'', ''2.0.0'']
   \<and> length (line_tokens
        ''staging/bugfix 1.9.4 506648c152681bf4b1416cf2b5aaf97d526ee752 pep440-dev'') = 4
   \<and> length (line_tokens
        ''bug/.* 1.9.4 506648c152681bf4b1416cf2b5aaf97d526ee752 pep440-dev'') = 4
   \<and> first_match matcher_match (parse_branch_versions re_compile BRANCH_VERSIONS)
        ''staging/bugfix'' = None
   \<and> first_match matcher_match (parse_branch_versions re_compile BRANCH_VERSIONS)
        (''bug/'' @ rest) = None
   \<and> match_rules matcher_match dist ''staging/bugfix'' st
        (parse_branch_versions re_compile BRANCH_VERSIONS) = st
   \<and> match_rules matcher_match dist (''bug/'' @ rest) st
        (parse_branch_versions re_compile BRANCH_VERSIONS) = st"
  using four_tokens
  by (simp add: parse_builtin length_builtin builtin_tags builtin_staging_bugfix builtin_bug
      match_rules_first_match del: append.simps)

subsection \<open>The keyword source\<close>

lemma startswith_prefix: "startswith s p = prefix p s"
proof
  assume "startswith s p"
  then have "s = p @ drop (length p) s"
    by (metis append_take_drop_id startswith_def)
  then show "prefix p s"
    by (metis prefixI)
next
  assume "prefix p s"
  then show "startswith s p"
    by (auto simp: startswith_def prefix_def)
qed

lemma has_digit_iff: "has_digit r = (\<exists>c\<in>set r. c \<in> set ''0123456789'')"
  by (simp add: has_digit_def list_ex_iff is_digit_def)

lemma keywords_tags_set:
  "set (keywords_tags refs) =
     (if \<exists>r\<in>set refs. prefix ''tag: '' r
      then drop 5 ` {r \<in> set refs. prefix ''tag: '' r}
      else {r \<in> set refs. \<exists>c\<in>set r. c \<in> set ''0123456789''})"
proof (cases "\<exists>r\<in>set refs. prefix ''tag: '' r")
  case True
  then have "filter (\<lambda>r. startswith r ''tag: '') refs \<noteq> []"
    by (simp add: startswith_prefix filter_empty_conv)
  with True show ?thesis
    by (simp add: keywords_tags_def Let_def startswith_prefix)
next
  case False
  then have "filter (\<lambda>r. startswith r ''tag: '') refs = []"
    by (simp add: startswith_prefix filter_empty_conv)
  with False show ?thesis
    by (auto simp: keywords_tags_def Let_def has_digit_iff)
qed

lemma keywords_branches_set:
  "set (keywords_branches refs) =
     {r \<in> set refs. \<not> prefix ''tag: '' r \<and> r \<noteq> ''HEAD'' \<and> \<not> prefix ''refs/'' r}"
  by (auto simp: keywords_branches_def startswith_prefix)

lemma keywords_unexpanded:
  "startswith rn ''$Format'' \<or> startswith gf ''$Format'' \<Longrightarrow>
   get_data_from_keywords order rn gf = Inr None"
  by (simp add: get_data_from_keywords_def)

lemma keywords_branch:
  assumes "get_data_from_keywords order rn gf = Inr (Some d)"
  shows "case branch d of
           None \<Rightarrow> keywords_branches (keywords_refs order rn) = []
         | Some b \<Rightarrow> b \<in> set (keywords_branches (keywords_refs order rn))"
  using assms
  by (auto simp: get_data_from_keywords_def Let_def split: if_splits sum.splits)

lemma keywords_version:
  assumes "get_data_from_keywords order rn gf = Inr (Some d)"
    and "keywords_tag (keywords_refs order rn) = Some t"
  shows "version d = t"
  using assms
  by (auto simp: get_data_from_keywords_def Let_def pyformat_def of_str_def py_str_def
      split: if_splits sum.splits)

lemma hd_sort_Min:
  fixes xs :: "'a::linorder list"
  assumes "xs \<noteq> []"
  shows "hd (sort xs) = Min (set xs)"
proof -
  from assms have "sort xs \<noteq> []"
    by (metis length_0_conv length_sort)
  then obtain y ys where ys: "sort xs = y # ys"
    by (cases "sort xs") auto
  have "sorted (y # ys)"
    by (metis ys sorted_sort)
  then have le: "\<forall>z\<in>set (y # ys). y \<le> z"
    by auto
  have "set (y # ys) = set xs"
    by (metis ys set_sort)
  with le have "Min (set xs) = y"
    by (intro Min_eqI) auto
  then show ?thesis by (simp add: ys)
qed

lemma keywords_tag_Min:
  "keywords_tags refs \<noteq> [] \<Longrightarrow> keywords_tag refs = Some (Min (set (keywords_tags refs)))"
  by (simp add: keywords_tag_def Let_def hd_sort_Min)

lemma archive_data:
  "get_data_from_keywords remdups archive_refnames ''cd955e9a46782119b36cc22b8dea5652ebbf9774'' =
     Inr (Some \<lparr>version = ''1.10.0'', branch = Some ''maintenance'',
       revision = Some ''cd955e9a46782119b36cc22b8dea5652ebbf9774''\<rparr>)"
  by code_simp

lemma archive_refs:
  "keywords_refs remdups archive_refnames =
     [''maintenance'', ''tag: 1.9.3'', ''tag: 1.10.0'', ''origin/maintenance'', ''refs/stash'']"
  by code_simp

lemma archive_tags:
  "keywords_tags (keywords_refs remdups archive_refnames) = [''1.9.3'', ''1.10.0'']"
  by code_simp

lemma archive_min: "Min (set [''1.9.3'', ''1.10.0'']) = ''1.10.0''"
  by code_simp

lemma archive_branches:
  "keywords_branches (keywords_refs remdups archive_refnames) = [''maintenance'', ''origin/maintenance'']"
  by code_simp

lemma unexpanded_starts: "startswith unexpanded_refnames ''$Format''"
  by code_simp

text \<open>
  C8. \<^verbatim>\<open>_get_data_from_keywords\<close> returns \<^verbatim>\<open>None\<close> whenever one of the two markers still
  starts with \<^verbatim>\<open>$Format\<close>. Otherwise, for the refs of the expanded list: the tag
  candidates are the refs that start with \<^verbatim>\<open>tag: \<close> (each without that marker, as the
  code cuts it off) or, if there is none, the refs that hold a digit; the branch
  candidates are the refs that do not start with \<^verbatim>\<open>tag: \<close>, are not \<^verbatim>\<open>HEAD\<close> and do not
  start with \<^verbatim>\<open>refs/\<close>; and the branch of the data returned is one of the branch
  candidates, or \<^verbatim>\<open>None\<close> when there is none.
\<close>

theorem keywords_candidates:
  "(startswith rn ''$Format'' \<or> startswith gf ''$Format'' \<longrightarrow>
      get_data_from_keywords order rn gf = Inr None)
   \<and> set (keywords_tags refs) =
       (if \<exists>r\<in>set refs. prefix ''tag: '' r
        then drop 5 ` {r \<in> set refs. prefix ''tag: '' r}
        else {r \<in> set refs. \<exists>c\<in>set r. c \<in> set ''0123456789''})
   \<and> set (keywords_branches refs) =
       {r \<in> set refs. \<not> prefix ''tag: '' r \<and> r \<noteq> ''HEAD'' \<and> \<not> prefix ''refs/'' r}
   \<and> (get_data_from_keywords order rn gf = Inr (Some d) \<longrightarrow>
       (case branch d of
          None \<Rightarrow> keywords_branches (keywords_refs order rn) = []
        | Some b \<Rightarrow> b \<in> set (keywords_branches (keywords_refs order rn))))"
  using keywords_unexpanded [of rn gf order] keywords_tags_set [of refs]
    keywords_branches_set [of refs] keywords_branch [of order rn gf d]
  by blast

theorem keywords_candidates_witness:
  "startswith unexpanded_refnames ''$Format''
   \<and> get_data_from_keywords remdups unexpanded_refnames unexpanded_full = Inr None
   \<and> keywords_refs remdups archive_refnames =
       [''maintenance'', ''tag: 1.9.3'', ''tag: 1.10.0'', ''origin/maintenance'', ''refs/stash'']
   \<and> set (keywords_tags (keywords_refs remdups archive_refnames)) = {''1.9.3'', ''1.10.0''}
   \<and> set (keywords_branches (keywords_refs remdups archive_refnames)) =
       {''maintenance'', ''origin/maintenance''}
   \<and> get_data_from_keywords remdups archive_refnames ''cd955e9a46782119b36cc22b8dea5652ebbf9774'' =
       Inr (Some \<lparr>version = ''1.10.0'', branch = Some ''maintenance'',
         revision = Some ''cd955e9a46782119b36cc22b8dea5652ebbf9774''\<rparr>)
   \<and> ''maintenance'' \<in> set (keywords_branches (keywords_refs remdups archive_refnames))"
  using keywords_candidates [of unexpanded_refnames unexpanded_full remdups
      "keywords_refs remdups archive_refnames"
      "\<lparr>version = ''1.10.0'', branch = Some ''maintenance'',
         revision = Some ''cd955e9a46782119b36cc22b8dea5652ebbf9774''\<rparr>"]
    keywords_candidates [of archive_refnames "''cd955e9a46782119b36cc22b8dea5652ebbf9774''" remdups
      "keywords_refs remdups archive_refnames"
      "\<lparr>version = ''1.10.0'', branch = Some ''maintenance'',
         revision = Some ''cd955e9a46782119b36cc22b8dea5652ebbf9774''\<rparr>"]
    unexpanded_starts archive_data archive_refs archive_tags archive_branches
  by simp

text \<open>
  C10. When there are tag candidates, the tag is the least of them in the order of
  strings (by code point, a proper prefix before its extensions), which is the first
  element of \<^verbatim>\<open>sorted(tags)\<close>; and it is the version of the data the source returns.
  Of \<^verbatim>\<open>1.9.3\<close> and \<^verbatim>\<open>1.10.0\<close> it is \<^verbatim>\<open>1.10.0\<close>.
\<close>

theorem keywords_smallest_tag:
  "(keywords_tags refs \<noteq> [] \<longrightarrow> keywords_tag refs = Some (Min (set (keywords_tags refs))))
   \<and> (get_data_from_keywords order rn gf = Inr (Some d)
        \<and> keywords_tags (keywords_refs order rn) \<noteq> [] \<longrightarrow>
      version d = Min (set (keywords_tags (keywords_refs order rn))))"
  using keywords_tag_Min keywords_version by blast

theorem keywords_smallest_tag_witness:
  "keywords_tags (keywords_refs remdups archive_refnames) = [''1.9.3'', ''1.10.0'']
   \<and> keywords_tag (keywords_refs remdups archive_refnames) = Some ''1.10.0''
   \<and> get_data_from_keywords remdups archive_refnames ''cd955e9a46782119b36cc22b8dea5652ebbf9774'' =
       Inr (Some \<lparr>version = ''1.10.0'', branch = Some ''maintenance'',
         revision = Some ''cd955e9a46782119b36cc22b8dea5652ebbf9774''\<rparr>)
   \<and> Min (set (keywords_tags (keywords_refs remdups archive_refnames))) = ''1.10.0''"
  using keywords_smallest_tag [of "keywords_refs remdups archive_refnames" remdups archive_refnames
      "''cd955e9a46782119b36cc22b8dea5652ebbf9774''"
      "\<lparr>version = ''1.10.0'', branch = Some ''maintenance'',
         revision = Some ''cd955e9a46782119b36cc22b8dea5652ebbf9774''\<rparr>"]
    archive_data archive_tags archive_min
  by simp

end
